theory Spec2Isabelle
  imports Complex_Main "HOL-Library.Word"
begin

unbundle bit_operations_syntax

section \<open>Library functions called by the models\<close>

subsection \<open>\<open>hashlib.sha256\<close> and \<open>hexdigest\<close>\<close>

text \<open>
  SHA-256 as in FIPS 180-4, on byte strings: 32-bit words, big-endian, one 64-byte
  block at a time. \<open>Payment.save\<close> calls \<open>hashlib.sha256(b).hexdigest()\<close>.
  The round constants \<open>K256\<close> and the initial registers \<open>H256\<close> are written in decimal.
\<close>

type_synonym byte = "8 word"
type_synonym u32 = "32 word"

definition rotr :: "nat \<Rightarrow> u32 \<Rightarrow> u32" where
  "rotr n x = drop_bit n x OR push_bit (32 - n) x"

definition Ch :: "u32 \<Rightarrow> u32 \<Rightarrow> u32 \<Rightarrow> u32" where
  "Ch x y z = (x AND y) XOR (NOT x AND z)"

definition Maj :: "u32 \<Rightarrow> u32 \<Rightarrow> u32 \<Rightarrow> u32" where
  "Maj x y z = (x AND y) XOR (x AND z) XOR (y AND z)"

definition Sigma0 :: "u32 \<Rightarrow> u32" where
  "Sigma0 x = rotr 2 x XOR rotr 13 x XOR rotr 22 x"

definition Sigma1 :: "u32 \<Rightarrow> u32" where
  "Sigma1 x = rotr 6 x XOR rotr 11 x XOR rotr 25 x"

definition sigma0 :: "u32 \<Rightarrow> u32" where
  "sigma0 x = rotr 7 x XOR rotr 18 x XOR drop_bit 3 x"

definition sigma1 :: "u32 \<Rightarrow> u32" where
  "sigma1 x = rotr 17 x XOR rotr 19 x XOR drop_bit 10 x"

definition K256 :: "u32 list" where
  "K256 =
   [1116352408, 1899447441, 3049323471, 3921009573, 961987163, 1508970993,
    2453635748, 2870763221, 3624381080, 310598401, 607225278, 1426881987,
    1925078388, 2162078206, 2614888103, 3248222580, 3835390401, 4022224774,
    264347078, 604807628, 770255983, 1249150122, 1555081692, 1996064986,
    2554220882, 2821834349, 2952996808, 3210313671, 3336571891, 3584528711,
    113926993, 338241895, 666307205, 773529912, 1294757372, 1396182291,
    1695183700, 1986661051, 2177026350, 2456956037, 2730485921, 2820302411,
    3259730800, 3345764771, 3516065817, 3600352804, 4094571909, 275423344,
    430227734, 506948616, 659060556, 883997877, 958139571, 1322822218,
    1537002063, 1747873779, 1955562222, 2024104815, 2227730452, 2361852424,
    2428436474, 2756734187, 3204031479, 3329325298]"

text \<open>Big-endian encoding of a word in a fixed count of bytes (\<open>int.to_bytes\<close>).\<close>

definition to_bytes :: "nat \<Rightarrow> 'a::len word \<Rightarrow> byte list" where
  "to_bytes n x = map (\<lambda>i. ucast (drop_bit (8 * i) x)) (rev [0..<n])"

fun be_word :: "byte list \<Rightarrow> u32" where
  "be_word [] = 0"
| "be_word (b # bs) = push_bit (8 * length bs) (ucast b) OR be_word bs"

text \<open>
  Padding: the byte \<open>0x80\<close>, zero bytes up to 56 modulo 64, then the length of the
  message in bits as a 64-bit big-endian number.
\<close>

definition pad :: "byte list \<Rightarrow> byte list" where
  "pad m = m @ [0x80] @ replicate ((119 - length m mod 64) mod 64) 0
             @ to_bytes 8 (8 * of_nat (length m) :: 64 word)"

fun chunks :: "nat \<Rightarrow> 'a list \<Rightarrow> 'a list list" where
  "chunks 0 xs = []"
| "chunks (Suc n) xs =
     (if xs = [] then [] else take (Suc n) xs # chunks (Suc n) (drop (Suc n) xs))"

definition extend :: "u32 list \<Rightarrow> u32 list" where
  "extend w = (let t = length w in
     w @ [sigma1 (w ! (t - 2)) + w ! (t - 7) + sigma0 (w ! (t - 15)) + w ! (t - 16)])"

definition schedule :: "byte list \<Rightarrow> u32 list" where
  "schedule block = (extend ^^ 48) (map be_word (chunks 4 block))"

type_synonym regs = "u32 \<times> u32 \<times> u32 \<times> u32 \<times> u32 \<times> u32 \<times> u32 \<times> u32"

fun round :: "regs \<Rightarrow> u32 \<times> u32 \<Rightarrow> regs" where
  "round (a, b, c, d, e, f, g, h) (k, w) =
     (let t1 = h + Sigma1 e + Ch e f g + k + w;
          t2 = Sigma0 a + Maj a b c
      in (t1 + t2, a, b, c, d + t1, e, f, g))"

fun compress :: "regs \<Rightarrow> byte list \<Rightarrow> regs" where
  "compress (a, b, c, d, e, f, g, h) block =
     (case foldl round (a, b, c, d, e, f, g, h) (zip K256 (schedule block)) of
        (a', b', c', d', e', f', g', h') \<Rightarrow>
          (a + a', b + b', c + c', d + d', e + e', f + f', g + g', h + h'))"

definition H256 :: regs where
  "H256 = (1779033703, 3144134277, 1013904242, 2773480762,
           1359893119, 2600822924, 528734635, 1541459225)"

fun regs_bytes :: "regs \<Rightarrow> byte list" where
  "regs_bytes (a, b, c, d, e, f, g, h) =
     concat (map (to_bytes 4) [a, b, c, d, e, f, g, h])"

definition sha256 :: "byte list \<Rightarrow> byte list" where
  "sha256 m = regs_bytes (foldl compress H256 (chunks 64 (pad m)))"

definition hex_digit :: "nat \<Rightarrow> char" where
  "hex_digit n = ''0123456789abcdef'' ! (n mod 16)"

definition hex :: "byte list \<Rightarrow> string" where
  "hex bs = concat (map (\<lambda>b. [hex_digit (unat (drop_bit 4 b)), hex_digit (unat (b AND 15))]) bs)"

definition hexdigest :: "byte list \<Rightarrow> string" where
  "hexdigest m = hex (sha256 m)"

subsection \<open>\<open>uuid.uuid4\<close>\<close>

text \<open>
  \<open>uuid.uuid4()\<close> is \<open>UUID(bytes=os.urandom(16), version=4)\<close>: the 128 random bits
  with the variant bits set to \<open>10\<close> and the version nibble set to 4. \<open>.bytes\<close> is the
  number in 16 big-endian bytes.
\<close>

type_synonym uuid = "128 word"

definition UUID_version4 :: "128 word \<Rightarrow> uuid" where
  "UUID_version4 r =
     (let i1 = r AND NOT (push_bit 48 0xc000);
          i2 = i1 OR push_bit 48 0x8000;
          i3 = i2 AND NOT (push_bit 64 0xf000)
      in i3 OR push_bit 76 4)"

definition uuid_bytes :: "uuid \<Rightarrow> byte list" where
  "uuid_bytes u = to_bytes 16 u"

section \<open>Data model (\<open>core/api/models.py\<close>)\<close>

text \<open>
  A timestamp is a count of microseconds; a \<open>DecimalField\<close> value is a rational.
  Each model class is a record of its columns (a foreign key is held as the key of the
  row it points to, Django's \<open>*_id\<close> attribute). \<open>id\<close> is the automatic primary key,
  \<open>None\<close> until the first insert.
\<close>

type_synonym datetime = int
type_synonym decimal = rat

datatype FuelTypes = GASOLINE | DIESEL | PROPANE | CNG | ETHANOL | BIODIESEL

datatype RentType = DAILY | WEEKLY | MONTHLY | YEARLY

datatype PaymentType = CREDIT_CARD | DEBIT_CARD | CASH

datatype PaymentStatus = PENDING | COMPLETED | CANCELLED | FAILED

record brand =
  brand_id :: "nat option"
  brand_name :: string
  brand_image :: string

record car =
  car_id :: "nat option"
  car_name :: string
  car_image :: string
  car_brand_id :: nat
  car_passengers :: int
  car_doors :: int
  car_has_air_conditioning :: bool
  car_has_power_locks :: bool
  car_has_power_windows :: bool
  car_fuel_type :: FuelTypes
  car_is_automatic :: bool
  car_horsepower :: int
  car_top_speed :: int
  car_acceleration_0_100 :: decimal
  car_model_year :: int

record rental =
  rental_id :: "nat option"
  rental_owner_id :: nat
  rental_car_id :: nat
  rental_rent_type :: RentType
  rental_rent_value :: decimal
  rental_created_at :: datetime
  rental_updated_at :: "datetime option"

record review =
  review_id :: "nat option"
  review_reviewer_id :: nat
  review_rental_id :: nat
  review_stars :: decimal
  review_comment :: string
  review_created_at :: datetime
  review_updated_at :: "datetime option"

record favorite =
  favorite_id :: "nat option"
  favorite_owner_id :: nat
  favorite_rental_id :: nat
  favorite_created_at :: datetime
  favorite_updated_at :: "datetime option"

record payment =
  payment_owner_id :: nat
  payment_receiver_id :: nat
  payment_payment_type :: PaymentType
  payment_payment_hash :: string
  payment_payment_status :: PaymentStatus
  payment_amount :: decimal
  payment_description :: string
  payment_bill_date :: datetime
  payment_created_at :: datetime
  payment_updated_at :: "datetime option"

record booking =
  booking_id :: "nat option"
  booking_renter_id :: nat
  booking_rental_id :: nat
  booking_location_id :: nat
  booking_rent_date :: datetime
  booking_return_date :: datetime
  booking_created_at :: datetime
  booking_updated_at :: "datetime option"

subsection \<open>The database\<close>

text \<open>
  One table per model; \<open>Booking.payments\<close> is a many-to-many field, stored in the
  table \<open>Booking_payments\<close> of (booking, payment) pairs. \<open>ProfileUser\<close> and \<open>Address\<close>
  are declared in \<open>core.authentication.models\<close>; their columns are not used here.
  A row is addressed by its model and primary key.
\<close>

datatype model =
  ProfileUser | Address | Brand | Car | Rental | Review | Favorite | Payment | Booking
  | Booking_payments

datatype key = IntKey nat | StrKey string

datatype row =
  ProfileUserRow
  | AddressRow
  | BrandRow brand
  | CarRow car
  | RentalRow rental
  | ReviewRow review
  | FavoriteRow favorite
  | PaymentRow payment
  | BookingRow booking
  | BookingPaymentsRow nat string

type_synonym obj = "model \<times> key"
type_synonym database = "(obj \<times> row) list"

text \<open>The value a row holds in the foreign-key column of the given name.\<close>

fun fk_value :: "row \<Rightarrow> string \<Rightarrow> key option" where
  "fk_value (CarRow c) f =
     (if f = ''brand'' then Some (IntKey (car_brand_id c)) else None)"
| "fk_value (RentalRow r) f =
     (if f = ''owner'' then Some (IntKey (rental_owner_id r))
      else if f = ''car'' then Some (IntKey (rental_car_id r)) else None)"
| "fk_value (ReviewRow v) f =
     (if f = ''reviewer'' then Some (IntKey (review_reviewer_id v))
      else if f = ''rental'' then Some (IntKey (review_rental_id v)) else None)"
| "fk_value (FavoriteRow v) f =
     (if f = ''owner'' then Some (IntKey (favorite_owner_id v))
      else if f = ''rental'' then Some (IntKey (favorite_rental_id v)) else None)"
| "fk_value (PaymentRow p) f =
     (if f = ''owner'' then Some (IntKey (payment_owner_id p))
      else if f = ''receiver'' then Some (IntKey (payment_receiver_id p)) else None)"
| "fk_value (BookingRow b) f =
     (if f = ''renter'' then Some (IntKey (booking_renter_id b))
      else if f = ''rental'' then Some (IntKey (booking_rental_id b))
      else if f = ''location'' then Some (IntKey (booking_location_id b)) else None)"
| "fk_value (BookingPaymentsRow b p) f =
     (if f = ''booking'' then Some (IntKey b)
      else if f = ''payment'' then Some (StrKey p) else None)"
| "fk_value _ f = None"

text \<open>
  The foreign keys as declared: the model holding the column, the column, the model
  referred to, and the \<open>on_delete\<close> option. The two columns of the many-to-many table
  are created by the framework with \<open>CASCADE\<close>.
\<close>

datatype on_delete = CASCADE | DO_NOTHING

record fk_decl =
  fk_model :: model
  fk_name :: string
  fk_to :: model
  fk_on_delete :: on_delete

definition foreign_keys :: "fk_decl list" where
  "foreign_keys =
   [\<lparr>fk_model = Car, fk_name = ''brand'', fk_to = Brand, fk_on_delete = CASCADE\<rparr>,
    \<lparr>fk_model = Rental, fk_name = ''owner'', fk_to = ProfileUser, fk_on_delete = CASCADE\<rparr>,
    \<lparr>fk_model = Rental, fk_name = ''car'', fk_to = Car, fk_on_delete = CASCADE\<rparr>,
    \<lparr>fk_model = Review, fk_name = ''reviewer'', fk_to = ProfileUser, fk_on_delete = CASCADE\<rparr>,
    \<lparr>fk_model = Review, fk_name = ''rental'', fk_to = Rental, fk_on_delete = CASCADE\<rparr>,
    \<lparr>fk_model = Favorite, fk_name = ''owner'', fk_to = ProfileUser, fk_on_delete = CASCADE\<rparr>,
    \<lparr>fk_model = Favorite, fk_name = ''rental'', fk_to = Rental, fk_on_delete = CASCADE\<rparr>,
    \<lparr>fk_model = Payment, fk_name = ''owner'', fk_to = ProfileUser, fk_on_delete = CASCADE\<rparr>,
    \<lparr>fk_model = Payment, fk_name = ''receiver'', fk_to = ProfileUser, fk_on_delete = CASCADE\<rparr>,
    \<lparr>fk_model = Booking, fk_name = ''renter'', fk_to = ProfileUser, fk_on_delete = CASCADE\<rparr>,
    \<lparr>fk_model = Booking, fk_name = ''rental'', fk_to = Rental, fk_on_delete = CASCADE\<rparr>,
    \<lparr>fk_model = Booking, fk_name = ''location'', fk_to = Address, fk_on_delete = CASCADE\<rparr>,
    \<lparr>fk_model = Booking_payments, fk_name = ''booking'', fk_to = Booking,
      fk_on_delete = CASCADE\<rparr>,
    \<lparr>fk_model = Booking_payments, fk_name = ''payment'', fk_to = Payment,
      fk_on_delete = CASCADE\<rparr>]"

subsection \<open>The world a request runs in\<close>

text \<open>
  \<open>timezone.now()\<close> reads a clock and \<open>uuid.uuid4()\<close> draws random bits. The world
  holds the sequence of readings the clock gives and the sequence of values the random
  source gives, with the count of reads made so far of each; the database; and the
  last automatic id handed out for each model.
\<close>

record world =
  clock :: "nat \<Rightarrow> datetime"
  now_calls :: nat
  urandom :: "nat \<Rightarrow> 128 word"
  uuid_calls :: nat
  db :: database
  sequences :: "model \<Rightarrow> nat"

definition timezone_now :: "world \<Rightarrow> datetime \<times> world" where
  "timezone_now w = (clock w (now_calls w), w\<lparr>now_calls := Suc (now_calls w)\<rparr>)"

definition uuid4 :: "world \<Rightarrow> uuid \<times> world" where
  "uuid4 w = (UUID_version4 (urandom w (uuid_calls w)), w\<lparr>uuid_calls := Suc (uuid_calls w)\<rparr>)"

section \<open>The framework's \<open>Model.save\<close> and \<open>Model.delete\<close>\<close>

text \<open>
  What \<open>Model.save\<close> needs to know of a model class: its table, how to read the
  primary key of an instance and how to store an automatic id in it, the setter of its
  \<open>auto_now\<close> column if it has one, and the row an instance is written as.
\<close>

record 'a options =
  opt_model :: model
  opt_pk :: "'a \<Rightarrow> key option"
  opt_set_id :: "nat \<Rightarrow> 'a \<Rightarrow> 'a"
  opt_auto_now :: "(datetime \<Rightarrow> 'a \<Rightarrow> 'a) option"
  opt_row :: "'a \<Rightarrow> row"

text \<open>
  \<open>pre_save\<close> of the columns on the way to the database: a \<open>DateTimeField\<close> with
  \<open>auto_now=True\<close> reads the clock and stores the reading in the instance.
\<close>

definition pre_save :: "'a options \<Rightarrow> world \<Rightarrow> 'a \<Rightarrow> world \<times> 'a" where
  "pre_save opts w x =
     (case opt_auto_now opts of
        None \<Rightarrow> (w, x)
      | Some set_now \<Rightarrow> (let (t, w') = timezone_now w in (w', set_now t x)))"

definition store :: "obj \<Rightarrow> row \<Rightarrow> database \<Rightarrow> database" where
  "store ob r d = (ob, r) # filter (\<lambda>(ob', r'). ob' \<noteq> ob) d"

text \<open>
  \<open>Model.save\<close>: with a primary key set, an UPDATE of the row is tried first, and an
  INSERT follows when no row has that key; with no primary key, the row is inserted
  and the database hands out the next id. Each of the two statements runs \<open>pre_save\<close>.
  Rejections by the database engine (constraints) are not part of the model.
\<close>

definition Model_save :: "'a options \<Rightarrow> world \<Rightarrow> 'a \<Rightarrow> world \<times> 'a" where
  "Model_save opts w x =
     (case opt_pk opts x of
        Some k \<Rightarrow>
          (let (w1, x1) = pre_save opts w x in
           if (opt_model opts, k) \<in> fst ` set (db w1)
           then (w1\<lparr>db := store (opt_model opts, k) (opt_row opts x1) (db w1)\<rparr>, x1)
           else (let (w2, x2) = pre_save opts w1 x1 in
                 (w2\<lparr>db := store (opt_model opts, k) (opt_row opts x2) (db w2)\<rparr>, x2)))
      | None \<Rightarrow>
          (let (w1, x1) = pre_save opts w x;
               n = Suc (sequences w1 (opt_model opts));
               x2 = opt_set_id opts n x1
           in (w1\<lparr>db := store (opt_model opts, IntKey n) (opt_row opts x2) (db w1),
                   sequences := (sequences w1)(opt_model opts := n)\<rparr>, x2)))"

text \<open>
  Deletion collects the object and, through every foreign key declared with
  \<open>CASCADE\<close>, the rows that refer to a collected object, until nothing new is found;
  then all collected rows are removed.
\<close>

definition related_objects :: "fk_decl list \<Rightarrow> database \<Rightarrow> obj \<Rightarrow> obj list" where
  "related_objects fks d ob =
     concat (map (\<lambda>(ob', r).
       if list_ex (\<lambda>fk. fk_on_delete fk = CASCADE \<and> fk_to fk = fst ob
                          \<and> fk_model fk = fst ob' \<and> fk_value r (fk_name fk) = Some (snd ob)) fks
       then [ob'] else []) d)"

function collect :: "fk_decl list \<Rightarrow> database \<Rightarrow> obj list \<Rightarrow> obj list \<Rightarrow> obj list" where
  "collect fks d [] seen = seen"
| "collect fks d (ob # todo) seen =
     (if ob \<in> set seen then collect fks d todo seen
      else collect fks d (related_objects fks d ob @ todo) (ob # seen))"
  by pat_completeness auto
termination
proof (relation "measures [\<lambda>(fks, d, todo, seen). card ((fst ` set d \<union> set todo) - set seen),
                           \<lambda>(fks, d, todo, seen). length todo]", goal_cases)
  case 1
  show ?case by simp
next
  case (2 fks d ob todo seen)
  have "(fst ` set d \<union> set todo) - set seen \<subseteq> (fst ` set d \<union> set (ob # todo)) - set seen"
    by auto
  then have "card ((fst ` set d \<union> set todo) - set seen)
               \<le> card ((fst ` set d \<union> set (ob # todo)) - set seen)"
    by (intro card_mono) auto
  then show ?case by auto
next
  case (3 fks d ob todo seen)
  have sub: "set (related_objects fks d ob) \<subseteq> fst ` set d"
    by (force simp: related_objects_def split: if_splits)
  have "(fst ` set d \<union> set (related_objects fks d ob @ todo)) - set (ob # seen)
          \<subset> (fst ` set d \<union> set (ob # todo)) - set seen"
    using sub 3 by auto
  then have "card ((fst ` set d \<union> set (related_objects fks d ob @ todo)) - set (ob # seen))
               < card ((fst ` set d \<union> set (ob # todo)) - set seen)"
    by (intro psubset_card_mono) auto
  then show ?case by simp
qed

definition Model_delete :: "world \<Rightarrow> obj \<Rightarrow> world" where
  "Model_delete w ob =
     (let doomed = collect foreign_keys (db w) [ob] []
      in w\<lparr>db := filter (\<lambda>(ob', r). ob' \<notin> set doomed) (db w)\<rparr>)"

text \<open>
  The objects a deletion reaches: the object itself, and every row that refers, through
  a foreign key declared with \<open>CASCADE\<close>, to an object reached.
\<close>

inductive_set cascade :: "fk_decl list \<Rightarrow> database \<Rightarrow> obj \<Rightarrow> obj set"
  for fks :: "fk_decl list" and d :: database and start :: obj where
  cascade_start: "start \<in> cascade fks d start"
| cascade_step: "ob \<in> cascade fks d start \<Longrightarrow> ob' \<in> set (related_objects fks d ob) \<Longrightarrow>
     ob' \<in> cascade fks d start"

section \<open>The \<open>save\<close> methods of the models\<close>

definition Rental_options :: "rental options" where
  "Rental_options =
     \<lparr>opt_model = Rental,
      opt_pk = (\<lambda>r. map_option IntKey (rental_id r)),
      opt_set_id = (\<lambda>n r. r\<lparr>rental_id := Some n\<rparr>),
      opt_auto_now = Some (\<lambda>t r. r\<lparr>rental_updated_at := Some t\<rparr>),
      opt_row = RentalRow\<rparr>"

definition Review_options :: "review options" where
  "Review_options =
     \<lparr>opt_model = Review,
      opt_pk = (\<lambda>r. map_option IntKey (review_id r)),
      opt_set_id = (\<lambda>n r. r\<lparr>review_id := Some n\<rparr>),
      opt_auto_now = Some (\<lambda>t r. r\<lparr>review_updated_at := Some t\<rparr>),
      opt_row = ReviewRow\<rparr>"

definition Favorite_options :: "favorite options" where
  "Favorite_options =
     \<lparr>opt_model = Favorite,
      opt_pk = (\<lambda>r. map_option IntKey (favorite_id r)),
      opt_set_id = (\<lambda>n r. r\<lparr>favorite_id := Some n\<rparr>),
      opt_auto_now = Some (\<lambda>t r. r\<lparr>favorite_updated_at := Some t\<rparr>),
      opt_row = FavoriteRow\<rparr>"

text \<open>\<open>payment_hash\<close> is declared with \<open>primary_key=True\<close>: the key of a payment is its hash.\<close>

definition Payment_options :: "payment options" where
  "Payment_options =
     \<lparr>opt_model = Payment,
      opt_pk = (\<lambda>p. Some (StrKey (payment_payment_hash p))),
      opt_set_id = (\<lambda>n p. p),
      opt_auto_now = Some (\<lambda>t p. p\<lparr>payment_updated_at := Some t\<rparr>),
      opt_row = PaymentRow\<rparr>"

definition Booking_options :: "booking options" where
  "Booking_options =
     \<lparr>opt_model = Booking,
      opt_pk = (\<lambda>r. map_option IntKey (booking_id r)),
      opt_set_id = (\<lambda>n r. r\<lparr>booking_id := Some n\<rparr>),
      opt_auto_now = Some (\<lambda>t r. r\<lparr>booking_updated_at := Some t\<rparr>),
      opt_row = BookingRow\<rparr>"

text \<open>
  \<^verbatim>\<open>
  def save(self, *args, **kwargs):
      self.updated_at = timezone.now()
      super(Rental, self).save(*args, **kwargs)
  \<close>
  and the same in \<open>Review\<close>, \<open>Favorite\<close> and \<open>Booking\<close>.
\<close>

definition Rental_save :: "world \<Rightarrow> rental \<Rightarrow> world \<times> rental" where
  "Rental_save w self =
     (let (t, w1) = timezone_now w;
          self1 = self\<lparr>rental_updated_at := Some t\<rparr>
      in Model_save Rental_options w1 self1)"

definition Review_save :: "world \<Rightarrow> review \<Rightarrow> world \<times> review" where
  "Review_save w self =
     (let (t, w1) = timezone_now w;
          self1 = self\<lparr>review_updated_at := Some t\<rparr>
      in Model_save Review_options w1 self1)"

definition Favorite_save :: "world \<Rightarrow> favorite \<Rightarrow> world \<times> favorite" where
  "Favorite_save w self =
     (let (t, w1) = timezone_now w;
          self1 = self\<lparr>favorite_updated_at := Some t\<rparr>
      in Model_save Favorite_options w1 self1)"

text \<open>
  \<^verbatim>\<open>
  def save(self, *args, **kwargs):
      if not self.payment_hash:
          self.payment_hash = hashlib.sha256(uuid.uuid4().bytes).hexdigest()
      self.updated_at = timezone.now()
      super(Payment, self).save(*args, **kwargs)
  \<close>
  \<open>payment_hash\<close> is a \<open>CharField\<close>: a string, and \<open>not self.payment_hash\<close> holds of
  the empty string.
\<close>

definition Payment_save :: "world \<Rightarrow> payment \<Rightarrow> world \<times> payment" where
  "Payment_save w self =
     (let (w1, self1) =
            (if payment_payment_hash self = []
             then (let (u, w') = uuid4 w
                   in (w', self\<lparr>payment_payment_hash := hexdigest (uuid_bytes u)\<rparr>))
             else (w, self));
          (t, w2) = timezone_now w1;
          self2 = self1\<lparr>payment_updated_at := Some t\<rparr>
      in Model_save Payment_options w2 self2)"

definition Booking_save :: "world \<Rightarrow> booking \<Rightarrow> world \<times> booking" where
  "Booking_save w self =
     (let (t, w1) = timezone_now w;
          self1 = self\<lparr>booking_updated_at := Some t\<rparr>
      in Model_save Booking_options w1 self1)"

text \<open>
  Creating an instance: \<open>created_at\<close> is declared with \<open>default=timezone.now\<close>, so
  the constructor reads the clock for it; \<open>updated_at\<close> has no default and the
  primary key is not set. The other columns are given by the caller.
\<close>

definition Rental_init :: "world \<Rightarrow> nat \<Rightarrow> nat \<Rightarrow> RentType \<Rightarrow> decimal \<Rightarrow> world \<times> rental" where
  "Rental_init w owner car rent_type rent_value =
     (let (t, w') = timezone_now w
      in (w', \<lparr>rental_id = None, rental_owner_id = owner, rental_car_id = car,
               rental_rent_type = rent_type, rental_rent_value = rent_value,
               rental_created_at = t, rental_updated_at = None\<rparr>))"

definition Review_init :: "world \<Rightarrow> nat \<Rightarrow> nat \<Rightarrow> decimal \<Rightarrow> string \<Rightarrow> world \<times> review" where
  "Review_init w reviewer rental stars comment =
     (let (t, w') = timezone_now w
      in (w', \<lparr>review_id = None, review_reviewer_id = reviewer, review_rental_id = rental,
               review_stars = stars, review_comment = comment,
               review_created_at = t, review_updated_at = None\<rparr>))"

definition Favorite_init :: "world \<Rightarrow> nat \<Rightarrow> nat \<Rightarrow> world \<times> favorite" where
  "Favorite_init w owner rental =
     (let (t, w') = timezone_now w
      in (w', \<lparr>favorite_id = None, favorite_owner_id = owner, favorite_rental_id = rental,
               favorite_created_at = t, favorite_updated_at = None\<rparr>))"

definition Payment_init ::
  "world \<Rightarrow> nat \<Rightarrow> nat \<Rightarrow> PaymentType \<Rightarrow> PaymentStatus \<Rightarrow> decimal \<Rightarrow> string \<Rightarrow> datetime
     \<Rightarrow> world \<times> payment" where
  "Payment_init w owner receiver payment_type payment_status amount description bill_date =
     (let (t, w') = timezone_now w
      in (w', \<lparr>payment_owner_id = owner, payment_receiver_id = receiver,
               payment_payment_type = payment_type, payment_payment_hash = [],
               payment_payment_status = payment_status, payment_amount = amount,
               payment_description = description, payment_bill_date = bill_date,
               payment_created_at = t, payment_updated_at = None\<rparr>))"

definition Booking_init ::
  "world \<Rightarrow> nat \<Rightarrow> nat \<Rightarrow> nat \<Rightarrow> datetime \<Rightarrow> datetime \<Rightarrow> world \<times> booking" where
  "Booking_init w renter rental location rent_date return_date =
     (let (t, w') = timezone_now w
      in (w', \<lparr>booking_id = None, booking_renter_id = renter, booking_rental_id = rental,
               booking_location_id = location, booking_rent_date = rent_date,
               booking_return_date = return_date,
               booking_created_at = t, booking_updated_at = None\<rparr>))"

text \<open>Saving the same instance \<open>n\<close> times in a row.\<close>

fun Payment_saves :: "nat \<Rightarrow> world \<Rightarrow> payment \<Rightarrow> world \<times> payment" where
  "Payment_saves 0 w p = (w, p)"
| "Payment_saves (Suc n) w p = (case Payment_save w p of (w', p') \<Rightarrow> Payment_saves n w' p')"



text \<open>The latest reading the clock has given.\<close>

definition last_reading :: "world \<Rightarrow> datetime" where
  "last_reading w = clock w (now_calls w - 1)"


section \<open>\<open>Favorite.__str__\<close>\<close>

text \<open>
  Reading an attribute of an instance gives the value of the column of that name, the
  related object for the name of a foreign key, and raises \<open>AttributeError\<close> for a name
  the class does not define. (The methods a model class inherits are attributes too;
  they are left out, none of them is called \<open>user\<close>.)
\<close>

datatype pyval = PyNone | PyInt nat | PyDatetime datetime | PyObject model key

datatype py_error = AttributeError string

definition py_int_opt :: "nat option \<Rightarrow> pyval" where
  "py_int_opt x = (case x of None \<Rightarrow> PyNone | Some n \<Rightarrow> PyInt n)"

definition py_datetime_opt :: "datetime option \<Rightarrow> pyval" where
  "py_datetime_opt x = (case x of None \<Rightarrow> PyNone | Some t \<Rightarrow> PyDatetime t)"

definition Favorite_getattr :: "favorite \<Rightarrow> string \<Rightarrow> py_error + pyval" where
  "Favorite_getattr self name =
     (if name = ''id'' \<or> name = ''pk'' then Inr (py_int_opt (favorite_id self))
      else if name = ''owner'' then Inr (PyObject ProfileUser (IntKey (favorite_owner_id self)))
      else if name = ''owner_id'' then Inr (PyInt (favorite_owner_id self))
      else if name = ''rental'' then Inr (PyObject Rental (IntKey (favorite_rental_id self)))
      else if name = ''rental_id'' then Inr (PyInt (favorite_rental_id self))
      else if name = ''created_at'' then Inr (PyDatetime (favorite_created_at self))
      else if name = ''updated_at'' then Inr (py_datetime_opt (favorite_updated_at self))
      else Inl (AttributeError name))"

text \<open>
  \<^verbatim>\<open>
  def __str__(self):
      return f"{self.user} [{self.rental}]"
  \<close>
  The text of a related object is given by that object's own \<open>__str__\<close>, a parameter
  here.
\<close>

definition Favorite_str :: "(pyval \<Rightarrow> string) \<Rightarrow> favorite \<Rightarrow> py_error + string" where
  "Favorite_str str self =
     (case Favorite_getattr self ''user'' of
        Inl e \<Rightarrow> Inl e
      | Inr u \<Rightarrow>
          (case Favorite_getattr self ''rental'' of
             Inl e \<Rightarrow> Inl e
           | Inr r \<Rightarrow> Inr (str u @ '' ['' @ str r @ '']'')))"

section \<open>Migration 0010\<close>

text \<open>
  A column definition: the field class, its \<open>default\<close> and its other keyword options.
  The state of the schema maps (model, column) to the definition.
\<close>

datatype field_class = DateTimeField | OtherField string

datatype default_value = django_utils_timezone_now | OtherDefault string

record field =
  field_class :: field_class
  field_default :: "default_value option"
  field_options :: "(string \<times> string) list"

datatype operation = AlterField string string field

datatype migration_error = FieldDoesNotExist string string

type_synonym project_state = "string \<times> string \<Rightarrow> field option"

definition operations :: "operation list" where
  "operations =
   [AlterField ''rental'' ''created_at''
      \<lparr>field_class = DateTimeField, field_default = Some django_utils_timezone_now,
       field_options = []\<rparr>,
    AlterField ''review'' ''created_at''
      \<lparr>field_class = DateTimeField, field_default = Some django_utils_timezone_now,
       field_options = []\<rparr>]"

text \<open>\<open>AlterField\<close> replaces the definition of an existing column by the given one.\<close>

fun apply_operation :: "operation \<Rightarrow> project_state \<Rightarrow> migration_error + project_state" where
  "apply_operation (AlterField model_name name f) st =
     (case st (model_name, name) of
        None \<Rightarrow> Inl (FieldDoesNotExist model_name name)
      | Some old \<Rightarrow> Inr (st((model_name, name) \<mapsto> f)))"

fun apply_operations :: "operation list \<Rightarrow> project_state \<Rightarrow> migration_error + project_state" where
  "apply_operations [] st = Inr st"
| "apply_operations (op # ops) st =
     (case apply_operation op st of Inl e \<Rightarrow> Inl e | Inr st' \<Rightarrow> apply_operations ops st')"

definition migrate :: "project_state \<Rightarrow> migration_error + project_state" where
  "migrate st = apply_operations operations st"

section \<open>Example values\<close>

text \<open>
  A world whose clock has been read five times (the readings are 1000, 1001, ...), with an
  empty database, and one instance of each model with time stamps.
\<close>

definition example_world :: world where
  "example_world =
     \<lparr>clock = (\<lambda>n. 1000 + int n), now_calls = 5, urandom = (\<lambda>n. 0), uuid_calls = 0,
      db = [], sequences = (\<lambda>m. 0)\<rparr>"

definition example_rental :: rental where
  "example_rental =
     \<lparr>rental_id = None, rental_owner_id = 1, rental_car_id = 1, rental_rent_type = WEEKLY,
      rental_rent_value = 250, rental_created_at = 1001, rental_updated_at = Some 1003\<rparr>"

definition example_review :: review where
  "example_review =
     \<lparr>review_id = None, review_reviewer_id = 2, review_rental_id = 1, review_stars = 4,
      review_comment = ''good'', review_created_at = 1002, review_updated_at = None\<rparr>"

definition example_favorite :: favorite where
  "example_favorite =
     \<lparr>favorite_id = Some 7, favorite_owner_id = 2, favorite_rental_id = 1,
      favorite_created_at = 1002, favorite_updated_at = Some 1004\<rparr>"

definition example_payment :: payment where
  "example_payment =
     \<lparr>payment_owner_id = 2, payment_receiver_id = 1, payment_payment_type = CASH,
      payment_payment_hash = ''abc'', payment_payment_status = PENDING, payment_amount = 250,
      payment_description = [], payment_bill_date = 2000,
      payment_created_at = 1000, payment_updated_at = Some 1000\<rparr>"

definition example_booking :: booking where
  "example_booking =
     \<lparr>booking_id = None, booking_renter_id = 2, booking_rental_id = 1, booking_location_id = 1,
      booking_rent_date = 3000, booking_return_date = 4000,
      booking_created_at = 1004, booking_updated_at = None\<rparr>"

text \<open>
  A database with two brands, a car of each, a rental of each car, reviews of both
  rentals, and a favorite and a booking (with one payment) of the first rental.
\<close>

definition example_car :: "nat \<Rightarrow> nat \<Rightarrow> car" where
  "example_car n b =
     \<lparr>car_id = Some n, car_name = ''car'', car_image = ''car/1.png'', car_brand_id = b,
      car_passengers = 5, car_doors = 4, car_has_air_conditioning = True,
      car_has_power_locks = True, car_has_power_windows = False, car_fuel_type = GASOLINE,
      car_is_automatic = False, car_horsepower = 90, car_top_speed = 170,
      car_acceleration_0_100 = 12, car_model_year = 2020\<rparr>"

definition example_database :: database where
  "example_database =
     [((ProfileUser, IntKey 1), ProfileUserRow),
      ((Address, IntKey 1), AddressRow),
      ((Brand, IntKey 1), BrandRow \<lparr>brand_id = Some 1, brand_name = ''A'', brand_image = ''brand/a.png''\<rparr>),
      ((Brand, IntKey 2), BrandRow \<lparr>brand_id = Some 2, brand_name = ''B'', brand_image = ''brand/b.png''\<rparr>),
      ((Car, IntKey 1), CarRow (example_car 1 1)),
      ((Car, IntKey 2), CarRow (example_car 2 2)),
      ((Rental, IntKey 1), RentalRow (example_rental\<lparr>rental_id := Some 1, rental_car_id := 1\<rparr>)),
      ((Rental, IntKey 2), RentalRow (example_rental\<lparr>rental_id := Some 2, rental_car_id := 2\<rparr>)),
      ((Review, IntKey 1), ReviewRow (example_review\<lparr>review_id := Some 1, review_rental_id := 1\<rparr>)),
      ((Review, IntKey 2), ReviewRow (example_review\<lparr>review_id := Some 2, review_rental_id := 2\<rparr>)),
      ((Favorite, IntKey 7), FavoriteRow (example_favorite\<lparr>favorite_rental_id := 1\<rparr>)),
      ((Payment, StrKey ''abc''), PaymentRow example_payment),
      ((Booking, IntKey 1), BookingRow (example_booking\<lparr>booking_id := Some 1, booking_rental_id := 1\<rparr>)),
      ((Booking_payments, IntKey 1), BookingPaymentsRow 1 ''abc'')]"

definition example_shop :: world where
  "example_shop = example_world\<lparr>db := example_database\<rparr>"





definition example_new_payment :: payment where
  "example_new_payment =
     \<lparr>payment_owner_id = 2, payment_receiver_id = 1, payment_payment_type = CREDIT_CARD,
      payment_payment_hash = [], payment_payment_status = PENDING, payment_amount = 90,
      payment_description = ''deposit'', payment_bill_date = 2500,
      payment_created_at = 1004, payment_updated_at = None\<rparr>"

section \<open>Properties\<close>

subsection \<open>The digest\<close>

lemma length_to_bytes: "length (to_bytes n x) = n"
  by (simp add: to_bytes_def)

lemma length_regs_bytes: "length (regs_bytes r) = 32"
  by (induction r rule: regs_bytes.induct) (simp add: length_to_bytes)

lemma length_hex: "length (hex bs) = 2 * length bs"
  by (induction bs) (simp_all add: hex_def)

lemma length_hexdigest: "length (hexdigest m) = 64"
  by (simp add: hexdigest_def sha256_def length_hex length_regs_bytes)

lemma hex_digit_mem: "hex_digit n \<in> set ''0123456789abcdef''"
  unfolding hex_digit_def by (rule nth_mem) simp

lemma set_hex: "set (hex bs) \<subseteq> set ''0123456789abcdef''"
proof (induction bs)
  case Nil
  show ?case by (simp add: hex_def)
next
  case (Cons b bs)
  have "hex (b # bs) = [hex_digit (unat (drop_bit 4 b)), hex_digit (unat (b AND 15))] @ hex bs"
    by (simp add: hex_def)
  with Cons hex_digit_mem [of "unat (drop_bit 4 b)"] hex_digit_mem [of "unat (b AND 15)"]
  show ?case by simp
qed

lemma set_hexdigest: "set (hexdigest m) \<subseteq> set ''0123456789abcdef''"
  unfolding hexdigest_def by (rule set_hex)

lemma hexdigest_not_empty: "hexdigest m \<noteq> []"
  using length_hexdigest [of m] by auto

subsection \<open>\<open>Favorite.__str__\<close>\<close>

text \<open>
  C9. For every \<open>Favorite\<close> instance, \<open>__str__\<close> raises \<open>AttributeError\<close>: it reads
  \<open>self.user\<close>, and the class defines the column \<open>owner\<close>, not \<open>user\<close>. This holds
  whatever the columns of the instance hold and whatever text the related objects have.
\<close>

theorem Favorite_str_raises_AttributeError:
  "Favorite_str str self = Inl (AttributeError ''user'')"
  by (simp add: Favorite_str_def Favorite_getattr_def)

theorem Favorite_str_raises_AttributeError_witness:
  "Favorite_str (\<lambda>v. ''object'')
     \<lparr>favorite_id = Some 1, favorite_owner_id = 2, favorite_rental_id = 3,
      favorite_created_at = 1000, favorite_updated_at = Some 1005\<rparr>
   = Inl (AttributeError ''user'')"
  using Favorite_str_raises_AttributeError
    [of "\<lambda>v. ''object''"
        "\<lparr>favorite_id = Some 1, favorite_owner_id = 2, favorite_rental_id = 3,
          favorite_created_at = 1000, favorite_updated_at = Some 1005\<rparr>"]
  by simp

subsection \<open>What a \<open>save\<close> does to an instance and to the world\<close>

lemmas save_defs = Model_save_def pre_save_def timezone_now_def last_reading_def Let_def

lemma Rental_save_result:
  "now_calls w < now_calls (fst (Rental_save w x))
   \<and> clock (fst (Rental_save w x)) = clock w
   \<and> rental_updated_at (snd (Rental_save w x)) = Some (last_reading (fst (Rental_save w x)))
   \<and> rental_created_at (snd (Rental_save w x)) = rental_created_at x"
  by (simp add: Rental_save_def Rental_options_def save_defs split: option.splits prod.splits)

lemma Review_save_result:
  "now_calls w < now_calls (fst (Review_save w x))
   \<and> clock (fst (Review_save w x)) = clock w
   \<and> review_updated_at (snd (Review_save w x)) = Some (last_reading (fst (Review_save w x)))
   \<and> review_created_at (snd (Review_save w x)) = review_created_at x"
  by (simp add: Review_save_def Review_options_def save_defs split: option.splits prod.splits)

lemma Favorite_save_result:
  "now_calls w < now_calls (fst (Favorite_save w x))
   \<and> clock (fst (Favorite_save w x)) = clock w
   \<and> favorite_updated_at (snd (Favorite_save w x)) = Some (last_reading (fst (Favorite_save w x)))
   \<and> favorite_created_at (snd (Favorite_save w x)) = favorite_created_at x"
  by (simp add: Favorite_save_def Favorite_options_def save_defs split: option.splits prod.splits)

lemma Booking_save_result:
  "now_calls w < now_calls (fst (Booking_save w x))
   \<and> clock (fst (Booking_save w x)) = clock w
   \<and> booking_updated_at (snd (Booking_save w x)) = Some (last_reading (fst (Booking_save w x)))
   \<and> booking_created_at (snd (Booking_save w x)) = booking_created_at x"
  by (simp add: Booking_save_def Booking_options_def save_defs split: option.splits prod.splits)

lemma Payment_save_result:
  "now_calls w < now_calls (fst (Payment_save w x))
   \<and> clock (fst (Payment_save w x)) = clock w
   \<and> payment_updated_at (snd (Payment_save w x)) = Some (last_reading (fst (Payment_save w x)))
   \<and> payment_created_at (snd (Payment_save w x)) = payment_created_at x"
  by (simp add: Payment_save_def Payment_options_def uuid4_def save_defs split: option.splits prod.splits)

lemma Payment_save_hash:
  "payment_payment_hash (snd (Payment_save w x)) =
     (if payment_payment_hash x = []
      then hexdigest (uuid_bytes (UUID_version4 (urandom w (uuid_calls w))))
      else payment_payment_hash x)"
  by (simp add: Payment_save_def Payment_options_def uuid4_def save_defs split: option.splits prod.splits)

lemma Payment_save_uuid_calls:
  "uuid_calls (fst (Payment_save w x)) =
     (if payment_payment_hash x = [] then Suc (uuid_calls w) else uuid_calls w)"
  by (simp add: Payment_save_def Payment_options_def uuid4_def save_defs split: option.splits prod.splits)

lemma Payment_save_urandom: "urandom (fst (Payment_save w x)) = urandom w"
  by (simp add: Payment_save_def Payment_options_def uuid4_def save_defs split: option.splits prod.splits)


lemma Rental_save_stored:
  "\<exists>n. rental_id (snd (Rental_save w x)) = Some n
     \<and> ((Rental, IntKey n), RentalRow (snd (Rental_save w x))) \<in> set (db (fst (Rental_save w x)))"
  by (simp add: Rental_save_def Rental_options_def store_def save_defs split: option.splits prod.splits)

lemma Review_save_stored:
  "\<exists>n. review_id (snd (Review_save w x)) = Some n
     \<and> ((Review, IntKey n), ReviewRow (snd (Review_save w x))) \<in> set (db (fst (Review_save w x)))"
  by (simp add: Review_save_def Review_options_def store_def save_defs split: option.splits prod.splits)

lemma Favorite_save_stored:
  "\<exists>n. favorite_id (snd (Favorite_save w x)) = Some n
     \<and> ((Favorite, IntKey n), FavoriteRow (snd (Favorite_save w x))) \<in> set (db (fst (Favorite_save w x)))"
  by (simp add: Favorite_save_def Favorite_options_def store_def save_defs split: option.splits prod.splits)

lemma Booking_save_stored:
  "\<exists>n. booking_id (snd (Booking_save w x)) = Some n
     \<and> ((Booking, IntKey n), BookingRow (snd (Booking_save w x))) \<in> set (db (fst (Booking_save w x)))"
  by (simp add: Booking_save_def Booking_options_def store_def save_defs split: option.splits prod.splits)

lemma Payment_save_stored:
  "((Payment, StrKey (payment_payment_hash (snd (Payment_save w x)))), PaymentRow (snd (Payment_save w x)))
     \<in> set (db (fst (Payment_save w x)))"
  by (simp add: Payment_save_def Payment_options_def uuid4_def store_def save_defs
      split: option.splits prod.splits)





lemma Payment_saves_keeps_hash:
  "payment_payment_hash p \<noteq> [] \<Longrightarrow>
     payment_payment_hash (snd (Payment_saves n w p)) = payment_payment_hash p
     \<and> uuid_calls (fst (Payment_saves n w p)) = uuid_calls w"
proof (induction n arbitrary: w p)
  case 0
  show ?case by simp
next
  case (Suc n)
  obtain w' p' where s: "Payment_save w p = (w', p')" by (cases "Payment_save w p")
  from Suc.prems Payment_save_hash [of w p] Payment_save_uuid_calls [of w p] s
  have "payment_payment_hash p' = payment_payment_hash p" "uuid_calls w' = uuid_calls w"
    by simp_all
  with Suc.IH [of p' w'] Suc.prems s show ?case by simp
qed

lemma Payment_save_hash_set: "payment_payment_hash (snd (Payment_save w p)) \<noteq> []"
  using Payment_save_hash [of w p] hexdigest_not_empty by simp


lemma Payment_saves_uuid_calls:
  "uuid_calls (fst (Payment_saves n w p)) \<le> Suc (uuid_calls w)"
proof (cases n)
  case 0
  then show ?thesis by simp
next
  case (Suc m)
  obtain w' p' where s: "Payment_save w p = (w', p')" by (cases "Payment_save w p")
  from s Payment_save_hash_set [of w p] have ne: "payment_payment_hash p' \<noteq> []" by simp
  from s Payment_save_uuid_calls [of w p] have "uuid_calls w' \<le> Suc (uuid_calls w)" by simp
  with Payment_saves_keeps_hash [OF ne, of m w'] Suc s show ?thesis by simp
qed

lemma Payment_saves_hash_of_first:
  "payment_payment_hash (snd (Payment_saves (Suc n) w p))
     = payment_payment_hash (snd (Payment_save w p))"
proof -
  obtain w' p' where s: "Payment_save w p = (w', p')" by (cases "Payment_save w p")
  from s Payment_save_hash_set [of w p] have ne: "payment_payment_hash p' \<noteq> []" by simp
  with Payment_saves_keeps_hash [OF ne, of n w'] s show ?thesis by simp
qed

lemmas example_defs = example_world_def example_rental_def example_review_def
  example_favorite_def example_payment_def example_booking_def

lemma init_created_at:
  "rental_created_at (snd (Rental_init w a1 a2 a3 a4)) = clock w (now_calls w)"
  "review_created_at (snd (Review_init w b1 b2 b3 b4)) = clock w (now_calls w)"
  "favorite_created_at (snd (Favorite_init w c1 c2)) = clock w (now_calls w)"
  "payment_created_at (snd (Payment_init w d1 d2 d3 d4 d5 d6 d7)) = clock w (now_calls w)"
  "booking_created_at (snd (Booking_init w e1 e2 e3 e4 e5)) = clock w (now_calls w)"
  by (simp_all add: Rental_init_def Review_init_def Favorite_init_def Payment_init_def
      Booking_init_def timezone_now_def)


subsection \<open>\<open>updated_at\<close>\<close>

text \<open>
  C3. Every \<open>save\<close> of a \<open>Rental\<close>, \<open>Review\<close>, \<open>Favorite\<close>, \<open>Payment\<close> or
  \<open>Booking\<close> reads the clock and sets \<open>updated_at\<close> to the current time: on return
  \<open>updated_at\<close> is the latest reading of the clock, a reading made during this
  \<open>save\<close>. No condition on the instance or on the world is needed.
\<close>

theorem save_sets_updated_at_to_current_time:
  "(now_calls w < now_calls (fst (Rental_save w r))
      \<and> rental_updated_at (snd (Rental_save w r)) = Some (last_reading (fst (Rental_save w r))))
   \<and> (now_calls w < now_calls (fst (Review_save w v))
      \<and> review_updated_at (snd (Review_save w v)) = Some (last_reading (fst (Review_save w v))))
   \<and> (now_calls w < now_calls (fst (Favorite_save w f))
      \<and> favorite_updated_at (snd (Favorite_save w f)) = Some (last_reading (fst (Favorite_save w f))))
   \<and> (now_calls w < now_calls (fst (Payment_save w p))
      \<and> payment_updated_at (snd (Payment_save w p)) = Some (last_reading (fst (Payment_save w p))))
   \<and> (now_calls w < now_calls (fst (Booking_save w b))
      \<and> booking_updated_at (snd (Booking_save w b)) = Some (last_reading (fst (Booking_save w b))))"
  using Rental_save_result [of w r] Review_save_result [of w v] Favorite_save_result [of w f]
    Payment_save_result [of w p] Booking_save_result [of w b]
  by simp

theorem save_sets_updated_at_to_current_time_witness:
  "rental_updated_at (snd (Rental_save example_world example_rental)) = Some 1006
   \<and> review_updated_at (snd (Review_save example_world example_review)) = Some 1006
   \<and> favorite_updated_at (snd (Favorite_save example_world example_favorite)) = Some 1007
   \<and> payment_updated_at (snd (Payment_save example_world example_payment)) = Some 1007
   \<and> booking_updated_at (snd (Booking_save example_world example_booking)) = Some 1006"
  using save_sets_updated_at_to_current_time
    [of example_world example_rental example_review example_favorite example_payment
        example_booking]
  by (simp add: example_defs Rental_save_def Review_save_def Favorite_save_def Payment_save_def
      Booking_save_def Rental_options_def Review_options_def Favorite_options_def
      Payment_options_def Booking_options_def store_def save_defs)





subsection \<open>\<open>created_at\<close>\<close>

text \<open>
  C8. No \<open>save\<close> changes \<open>created_at\<close>, for each of the five models; an instance
  made by the constructor has the reading of the clock at its creation as
  \<open>created_at\<close>, and still has it after a \<open>save\<close> in any later world.
\<close>

theorem save_leaves_created_at_unchanged:
  "rental_created_at (snd (Rental_save w r)) = rental_created_at r
   \<and> review_created_at (snd (Review_save w v)) = review_created_at v
   \<and> favorite_created_at (snd (Favorite_save w f)) = favorite_created_at f
   \<and> payment_created_at (snd (Payment_save w p)) = payment_created_at p
   \<and> booking_created_at (snd (Booking_save w b)) = booking_created_at b
   \<and> rental_created_at (snd (Rental_save w' (snd (Rental_init w a1 a2 a3 a4))))
        = clock w (now_calls w)
   \<and> review_created_at (snd (Review_save w' (snd (Review_init w b1 b2 b3 b4))))
        = clock w (now_calls w)
   \<and> favorite_created_at (snd (Favorite_save w' (snd (Favorite_init w c1 c2))))
        = clock w (now_calls w)
   \<and> payment_created_at (snd (Payment_save w' (snd (Payment_init w d1 d2 d3 d4 d5 d6 d7))))
        = clock w (now_calls w)
   \<and> booking_created_at (snd (Booking_save w' (snd (Booking_init w e1 e2 e3 e4 e5))))
        = clock w (now_calls w)"
  using Rental_save_result Review_save_result Favorite_save_result Payment_save_result
    Booking_save_result
  by (simp add: init_created_at)

theorem save_leaves_created_at_unchanged_witness:
  "rental_created_at (snd (Rental_save example_world example_rental)) = 1001
   \<and> review_created_at (snd (Review_save example_world example_review)) = 1002
   \<and> favorite_created_at (snd (Favorite_save example_world example_favorite)) = 1002
   \<and> payment_created_at (snd (Payment_save example_world example_payment)) = 1000
   \<and> booking_created_at (snd (Booking_save example_world example_booking)) = 1004
   \<and> rental_created_at (snd (Rental_save (fst (Rental_init example_world 1 1 DAILY 80))
         (snd (Rental_init example_world 1 1 DAILY 80)))) = 1005"
  using save_leaves_created_at_unchanged
    [where w = example_world and r = example_rental and v = example_review
       and f = example_favorite and p = example_payment and b = example_booking
       and w' = "fst (Rental_init example_world 1 1 DAILY 80)"
       and ?a1.0 = 1 and ?a2.0 = 1 and ?a3.0 = DAILY and ?a4.0 = 80]
  by (simp add: example_defs)

subsection \<open>\<open>payment_hash\<close>\<close>

text \<open>
  C1. A \<open>save\<close> of a \<open>Payment\<close> whose \<open>payment_hash\<close> is empty assigns it a string of
  64 characters, all hexadecimal digits: the SHA-256 hex digest of the bytes of the
  UUID that \<open>uuid.uuid4()\<close> gives at that moment, one fresh draw from the random source.
\<close>

theorem Payment_save_assigns_hash:
  assumes "payment_payment_hash p = []"
  shows "length (payment_payment_hash (snd (Payment_save w p))) = 64
    \<and> set (payment_payment_hash (snd (Payment_save w p))) \<subseteq> set ''0123456789abcdef''
    \<and> payment_payment_hash (snd (Payment_save w p)) = hexdigest (uuid_bytes (fst (uuid4 w)))
    \<and> uuid_calls (fst (Payment_save w p)) = Suc (uuid_calls w)"
  using assms Payment_save_hash [of w p] Payment_save_uuid_calls [of w p]
    length_hexdigest set_hexdigest
  by (simp add: uuid4_def)

theorem Payment_save_assigns_hash_witness:
  "payment_payment_hash example_new_payment = []
   \<and> length (payment_payment_hash (snd (Payment_save example_world example_new_payment))) = 64
   \<and> set (payment_payment_hash (snd (Payment_save example_world example_new_payment)))
        \<subseteq> set ''0123456789abcdef''
   \<and> uuid_calls (fst (Payment_save example_world example_new_payment)) = 1"
proof -
  have e: "payment_payment_hash example_new_payment = []"
    by (simp add: example_new_payment_def)
  have u0: "uuid_calls example_world = 0"
    by (simp add: example_world_def)
  note t = Payment_save_assigns_hash [OF e, of example_world]
  from t have a: "length (payment_payment_hash (snd (Payment_save example_world example_new_payment))) = 64"
    by (rule conjunct1)
  from t have b: "set (payment_payment_hash (snd (Payment_save example_world example_new_payment)))
        \<subseteq> set ''0123456789abcdef''"
    by (rule conjunct2 [THEN conjunct1])
  from t have "uuid_calls (fst (Payment_save example_world example_new_payment))
      = Suc (uuid_calls example_world)"
    by (rule conjunct2 [THEN conjunct2, THEN conjunct2])
  with u0 have c: "uuid_calls (fst (Payment_save example_world example_new_payment)) = 1"
    by simp
  from e a b c show ?thesis by (intro conjI)
qed

text \<open>
  C2. A \<open>save\<close> of a \<open>Payment\<close> whose \<open>payment_hash\<close> is set leaves it unchanged and
  draws no UUID; so does any number of saves in a row. After the first of a sequence of
  saves the hash stays what that first \<open>save\<close> made it, and a sequence of saves draws
  at most one UUID.
\<close>

theorem Payment_save_keeps_hash:
  "(payment_payment_hash p \<noteq> [] \<longrightarrow>
      payment_payment_hash (snd (Payment_save w p)) = payment_payment_hash p
      \<and> uuid_calls (fst (Payment_save w p)) = uuid_calls w)
   \<and> (payment_payment_hash p \<noteq> [] \<longrightarrow>
      payment_payment_hash (snd (Payment_saves n w p)) = payment_payment_hash p
      \<and> uuid_calls (fst (Payment_saves n w p)) = uuid_calls w)
   \<and> payment_payment_hash (snd (Payment_saves (Suc n) w p))
        = payment_payment_hash (snd (Payment_save w p))
   \<and> uuid_calls (fst (Payment_saves n w p)) \<le> Suc (uuid_calls w)"
  using Payment_save_hash [of w p] Payment_save_uuid_calls [of w p]
    Payment_saves_keeps_hash [of p n w] Payment_saves_hash_of_first [of n w p]
    Payment_saves_uuid_calls [of n w p]
  by simp

theorem Payment_save_keeps_hash_witness:
  "payment_payment_hash example_payment \<noteq> []
   \<and> payment_payment_hash (snd (Payment_save example_world example_payment)) = ''abc''
   \<and> uuid_calls (fst (Payment_save example_world example_payment)) = 0
   \<and> payment_payment_hash (snd (Payment_saves 3 example_world example_payment)) = ''abc''
   \<and> uuid_calls (fst (Payment_saves 3 example_world example_payment)) = 0"
proof -
  have e: "payment_payment_hash example_payment = ''abc''"
    by (simp add: example_payment_def)
  have u0: "uuid_calls example_world = 0"
    by (simp add: example_world_def)
  note t = Payment_save_keeps_hash [of example_payment example_world 3]
  from t e u0 show ?thesis by simp
qed

text \<open>
  C7. The primary key of a \<open>Payment\<close> is its \<open>payment_hash\<close>: it is the key the row
  is written under. A hash that \<open>save\<close> generates is the SHA-256 hex digest of the
  random UUID alone: two payments without a hash that differ in owner, amount, dates or
  anything else, saved at any times, get the same hash when the random source gives the
  same bits.
\<close>

theorem Payment_primary_key_is_random_hash:
  "opt_pk Payment_options p = Some (StrKey (payment_payment_hash p))
   \<and> ((Payment, StrKey (payment_payment_hash (snd (Payment_save w p)))),
        PaymentRow (snd (Payment_save w p))) \<in> set (db (fst (Payment_save w p)))
   \<and> (payment_payment_hash p = [] \<and> payment_payment_hash q = []
        \<and> urandom w (uuid_calls w) = urandom w' (uuid_calls w')
      \<longrightarrow> payment_payment_hash (snd (Payment_save w p))
            = payment_payment_hash (snd (Payment_save w' q))
          \<and> payment_payment_hash (snd (Payment_save w p))
            = hexdigest (uuid_bytes (UUID_version4 (urandom w (uuid_calls w)))))"
  using Payment_save_stored [of w p] Payment_save_hash [of w p] Payment_save_hash [of w' q]
  by (simp add: Payment_options_def)

theorem Payment_primary_key_is_random_hash_witness:
  "payment_payment_hash example_new_payment = []
   \<and> payment_payment_hash (example_new_payment\<lparr>payment_owner_id := 9, payment_amount := 1\<rparr>) = []
   \<and> payment_payment_hash (snd (Payment_save example_world example_new_payment))
      = payment_payment_hash (snd (Payment_save (example_world\<lparr>now_calls := 40\<rparr>)
          (example_new_payment\<lparr>payment_owner_id := 9, payment_amount := 1\<rparr>)))"
proof -
  have e: "payment_payment_hash example_new_payment = []"
    "payment_payment_hash (example_new_payment\<lparr>payment_owner_id := 9, payment_amount := 1\<rparr>) = []"
    by (simp_all add: example_new_payment_def)
  have u: "urandom example_world (uuid_calls example_world)
      = urandom (example_world\<lparr>now_calls := 40\<rparr>) (uuid_calls (example_world\<lparr>now_calls := 40\<rparr>))"
    by simp
  note t = Payment_primary_key_is_random_hash
    [of example_new_payment example_world
        "example_new_payment\<lparr>payment_owner_id := 9, payment_amount := 1\<rparr>"
        "example_world\<lparr>now_calls := 40\<rparr>"]
  from t e u have "payment_payment_hash (snd (Payment_save example_world example_new_payment))
      = payment_payment_hash (snd (Payment_save (example_world\<lparr>now_calls := 40\<rparr>)
          (example_new_payment\<lparr>payment_owner_id := 9, payment_amount := 1\<rparr>)))"
    by blast
  with e show ?thesis by (intro conjI)
qed

subsection \<open>Deletion\<close>

lemma collect_superset: "set seen \<union> set todo \<subseteq> set (collect fks d todo seen)"
proof (induction fks d todo seen rule: collect.induct)
  case (1 fks d seen)
  show ?case by simp
next
  case (2 fks d ob todo seen)
  show ?case
  proof (cases "ob \<in> set seen")
    case True
    with 2(1) show ?thesis by auto
  next
    case False
    with 2(2) show ?thesis by auto
  qed
qed

lemma collect_closed:
  "\<forall>x\<in>set seen. set (related_objects fks d x) \<subseteq> set seen \<union> set todo \<Longrightarrow>
     \<forall>x\<in>set (collect fks d todo seen).
        set (related_objects fks d x) \<subseteq> set (collect fks d todo seen)"
proof (induction fks d todo seen rule: collect.induct)
  case (1 fks d seen)
  then show ?case by simp
next
  case (2 fks d ob todo seen)
  show ?case
  proof (cases "ob \<in> set seen")
    case True
    from 2(3) True have "\<forall>x\<in>set seen. set (related_objects fks d x) \<subseteq> set seen \<union> set todo"
      by auto
    from 2(1) [OF True this] True show ?thesis by simp
  next
    case False
    from 2(3) have "\<forall>x\<in>set (ob # seen). set (related_objects fks d x)
        \<subseteq> set (ob # seen) \<union> set (related_objects fks d ob @ todo)"
      by auto
    from 2(2) [OF False this] False show ?thesis by simp
  qed
qed

lemma related_objectsI:
  assumes "(ob', r) \<in> set d" and "fk \<in> set fks" and "fk_on_delete fk = CASCADE"
    and "fk_to fk = fst ob" and "fk_model fk = fst ob'"
    and "fk_value r (fk_name fk) = Some (snd ob)"
  shows "ob' \<in> set (related_objects fks d ob)"
proof -
  have le: "list_ex (\<lambda>fk. fk_on_delete fk = CASCADE \<and> fk_to fk = fst ob
      \<and> fk_model fk = fst ob' \<and> fk_value r (fk_name fk) = Some (snd ob)) fks"
    unfolding list_ex_iff using assms(2-6) by blast
  have "ob' \<in> set ((\<lambda>(ob', r).
       if list_ex (\<lambda>fk. fk_on_delete fk = CASCADE \<and> fk_to fk = fst ob
                          \<and> fk_model fk = fst ob' \<and> fk_value r (fk_name fk) = Some (snd ob)) fks
       then [ob'] else []) (ob', r))"
    using le by simp
  with assms(1) show ?thesis
    unfolding related_objects_def set_concat set_map by blast
qed

lemma doomed_root: "ob \<in> set (collect fks d [ob] [])"
  using collect_superset [of "[]" "[ob]" fks d] by simp

lemma doomed_closed:
  assumes "ob \<in> set (collect fks d [start] [])"
    and "ob' \<in> set (related_objects fks d ob)"
  shows "ob' \<in> set (collect fks d [start] [])"
  using collect_closed [of "[]" fks d "[start]"] assms by auto

lemma Model_delete_removes:
  "ob \<in> set (collect foreign_keys (db w) [start] []) \<Longrightarrow> ob \<notin> fst ` set (db (Model_delete w start))"
  by (auto simp: Model_delete_def Let_def)

lemma Model_delete_keeps:
  "(ob, r) \<in> set (db w) \<Longrightarrow> ob \<notin> set (collect foreign_keys (db w) [start] []) \<Longrightarrow>
     (ob, r) \<in> set (db (Model_delete w start))"
  by (auto simp: Model_delete_def Let_def)

lemma Model_delete_subset: "set (db (Model_delete w start)) \<subseteq> set (db w)"
  by (auto simp: Model_delete_def Let_def)

lemma doomed_Car_of_Brand:
  assumes "(Brand, IntKey b) \<in> set (collect foreign_keys d [start] [])"
    and "((Car, k), CarRow c) \<in> set d" and "car_brand_id c = b"
  shows "(Car, k) \<in> set (collect foreign_keys d [start] [])"
proof (rule doomed_closed [OF assms(1)])
  have "\<lparr>fk_model = Car, fk_name = ''brand'', fk_to = Brand, fk_on_delete = CASCADE\<rparr>
      \<in> set foreign_keys"
    by (simp add: foreign_keys_def)
  from related_objectsI [OF assms(2) this] assms(3)
  show "(Car, k) \<in> set (related_objects foreign_keys d (Brand, IntKey b))"
    by simp
qed

lemma doomed_Rental_of_Car:
  assumes "(Car, IntKey c) \<in> set (collect foreign_keys d [start] [])"
    and "((Rental, k), RentalRow r) \<in> set d" and "rental_car_id r = c"
  shows "(Rental, k) \<in> set (collect foreign_keys d [start] [])"
proof (rule doomed_closed [OF assms(1)])
  have "\<lparr>fk_model = Rental, fk_name = ''car'', fk_to = Car, fk_on_delete = CASCADE\<rparr>
      \<in> set foreign_keys"
    by (simp add: foreign_keys_def)
  from related_objectsI [OF assms(2) this] assms(3)
  show "(Rental, k) \<in> set (related_objects foreign_keys d (Car, IntKey c))"
    by simp
qed

lemma doomed_Review_of_Rental:
  assumes "(Rental, IntKey n) \<in> set (collect foreign_keys d [start] [])"
    and "((Review, k), ReviewRow v) \<in> set d" and "review_rental_id v = n"
  shows "(Review, k) \<in> set (collect foreign_keys d [start] [])"
proof (rule doomed_closed [OF assms(1)])
  have "\<lparr>fk_model = Review, fk_name = ''rental'', fk_to = Rental, fk_on_delete = CASCADE\<rparr>
      \<in> set foreign_keys"
    by (simp add: foreign_keys_def)
  from related_objectsI [OF assms(2) this] assms(3)
  show "(Review, k) \<in> set (related_objects foreign_keys d (Rental, IntKey n))"
    by simp
qed

lemma doomed_Favorite_of_Rental:
  assumes "(Rental, IntKey n) \<in> set (collect foreign_keys d [start] [])"
    and "((Favorite, k), FavoriteRow v) \<in> set d" and "favorite_rental_id v = n"
  shows "(Favorite, k) \<in> set (collect foreign_keys d [start] [])"
proof (rule doomed_closed [OF assms(1)])
  have "\<lparr>fk_model = Favorite, fk_name = ''rental'', fk_to = Rental, fk_on_delete = CASCADE\<rparr>
      \<in> set foreign_keys"
    by (simp add: foreign_keys_def)
  from related_objectsI [OF assms(2) this] assms(3)
  show "(Favorite, k) \<in> set (related_objects foreign_keys d (Rental, IntKey n))"
    by simp
qed

lemma doomed_Booking_of_Rental:
  assumes "(Rental, IntKey n) \<in> set (collect foreign_keys d [start] [])"
    and "((Booking, k), BookingRow v) \<in> set d" and "booking_rental_id v = n"
  shows "(Booking, k) \<in> set (collect foreign_keys d [start] [])"
proof (rule doomed_closed [OF assms(1)])
  have "\<lparr>fk_model = Booking, fk_name = ''rental'', fk_to = Rental, fk_on_delete = CASCADE\<rparr>
      \<in> set foreign_keys"
    by (simp add: foreign_keys_def)
  from related_objectsI [OF assms(2) this] assms(3)
  show "(Booking, k) \<in> set (related_objects foreign_keys d (Rental, IntKey n))"
    by simp
qed

lemma collect_within_cascade:
  "set seen \<union> set todo \<subseteq> cascade fks d start \<Longrightarrow>
     set (collect fks d todo seen) \<subseteq> cascade fks d start"
proof (induction fks d todo seen rule: collect.induct)
  case (1 fks d seen)
  then show ?case by simp
next
  case (2 fks d ob todo seen)
  show ?case
  proof (cases "ob \<in> set seen")
    case True
    with 2(1) 2(3) show ?thesis by simp
  next
    case False
    from 2(3) have "ob \<in> cascade fks d start" by simp
    then have "set (related_objects fks d ob) \<subseteq> cascade fks d start"
      by (auto intro: cascade_step)
    with 2(3) have "set (ob # seen) \<union> set (related_objects fks d ob @ todo)
        \<subseteq> cascade fks d start"
      by auto
    from 2(2) [OF False this] False show ?thesis by simp
  qed
qed

text \<open>What \<open>collect\<close> finds is exactly what the object reaches: nothing else is deleted.\<close>

lemma collect_is_cascade: "set (collect fks d [start] []) = cascade fks d start"
proof
  show "set (collect fks d [start] []) \<subseteq> cascade fks d start"
    by (rule collect_within_cascade) (simp add: cascade_start)
next
  show "cascade fks d start \<subseteq> set (collect fks d [start] [])"
  proof
    fix ob
    assume "ob \<in> cascade fks d start"
    then show "ob \<in> set (collect fks d [start] [])"
    proof induction
      case cascade_start
      show ?case by (rule doomed_root)
    next
      case (cascade_step ob ob')
      from cascade_step.IH cascade_step.hyps(2) show ?case by (rule doomed_closed)
    qed
  qed
qed

lemma example_delete_Brand:
  "map fst (db (Model_delete example_shop (Brand, IntKey 1)))
    = [(ProfileUser, IntKey 1), (Address, IntKey 1), (Brand, IntKey 2), (Car, IntKey 2),
       (Rental, IntKey 2), (Review, IntKey 2), (Payment, StrKey ''abc'')]"
  by (simp add: Model_delete_def example_shop_def example_database_def related_objects_def
      foreign_keys_def example_defs example_car_def)

lemma example_delete_Rental:
  "map fst (db (Model_delete example_shop (Rental, IntKey 1)))
    = [(ProfileUser, IntKey 1), (Address, IntKey 1), (Brand, IntKey 1), (Brand, IntKey 2),
       (Car, IntKey 1), (Car, IntKey 2),
       (Rental, IntKey 2), (Review, IntKey 2), (Payment, StrKey ''abc'')]"
  by (simp add: Model_delete_def example_shop_def example_database_def related_objects_def
      foreign_keys_def example_defs example_car_def)


lemma example_shop_rows:
  "((Car, IntKey 1), CarRow (example_car 1 1)) \<in> set (db example_shop)"
  "((Rental, IntKey 1), RentalRow (example_rental\<lparr>rental_id := Some 1, rental_car_id := 1\<rparr>))
     \<in> set (db example_shop)"
  "((Review, IntKey 1), ReviewRow (example_review\<lparr>review_id := Some 1, review_rental_id := 1\<rparr>))
     \<in> set (db example_shop)"
  "((Favorite, IntKey 7), FavoriteRow (example_favorite\<lparr>favorite_rental_id := 1\<rparr>))
     \<in> set (db example_shop)"
  "((Booking, IntKey 1), BookingRow (example_booking\<lparr>booking_id := Some 1, booking_rental_id := 1\<rparr>))
     \<in> set (db example_shop)"
  by (simp_all add: example_shop_def example_database_def)

text \<open>
  C5. Deleting a \<open>Brand\<close> deletes every \<open>Car\<close> whose \<open>brand\<close> refers to it: no car
  row of the database that holds the key of the brand is left after the deletion.
\<close>

theorem delete_Brand_cascades_to_Cars:
  "((Car, k), CarRow c) \<in> set (db w) \<and> car_brand_id c = b \<longrightarrow>
     (Car, k) \<notin> fst ` set (db (Model_delete w (Brand, IntKey b)))"
proof
  assume a: "((Car, k), CarRow c) \<in> set (db w) \<and> car_brand_id c = b"
  then have x: "((Car, k), CarRow c) \<in> set (db w)" and y: "car_brand_id c = b"
    by simp_all
  have "(Car, k) \<in> set (collect foreign_keys (db w) [(Brand, IntKey b)] [])"
    by (rule doomed_Car_of_Brand [OF doomed_root x y])
  then show "(Car, k) \<notin> fst ` set (db (Model_delete w (Brand, IntKey b)))"
    by (rule Model_delete_removes)
qed

theorem delete_Brand_cascades_to_Cars_witness:
  "((Car, IntKey 1), CarRow (example_car 1 1)) \<in> set (db example_shop)
   \<and> car_brand_id (example_car 1 1) = 1
   \<and> (Car, IntKey 1) \<notin> fst ` set (db (Model_delete example_shop (Brand, IntKey 1)))
   \<and> (Car, IntKey 2) \<in> fst ` set (db (Model_delete example_shop (Brand, IntKey 1)))"
proof -
  have b: "car_brand_id (example_car 1 1) = 1" by (simp add: example_car_def)
  from delete_Brand_cascades_to_Cars [of "IntKey 1" "example_car 1 1" example_shop 1]
    example_shop_rows(1) b
  have gone: "(Car, IntKey 1) \<notin> fst ` set (db (Model_delete example_shop (Brand, IntKey 1)))"
    by blast
  have "(Car, IntKey 2) \<in> set (map fst (db (Model_delete example_shop (Brand, IntKey 1))))"
    unfolding example_delete_Brand by simp
  then have kept: "(Car, IntKey 2) \<in> fst ` set (db (Model_delete example_shop (Brand, IntKey 1)))"
    by simp
  from example_shop_rows(1) b gone kept show ?thesis by (intro conjI)
qed

text \<open>
  C10. Deleting a \<open>Rental\<close> deletes every \<open>Review\<close>, \<open>Favorite\<close> and \<open>Booking\<close>
  whose \<open>rental\<close> refers to it. Deleting a \<open>Brand\<close> deletes, with each of its cars,
  the rentals of the car and the reviews, favorites and bookings of those rentals.
\<close>

theorem delete_Rental_cascades:
  "(((Review, k1), ReviewRow v) \<in> set (db w) \<and> review_rental_id v = n \<longrightarrow>
      (Review, k1) \<notin> fst ` set (db (Model_delete w (Rental, IntKey n))))
   \<and> (((Favorite, k2), FavoriteRow f) \<in> set (db w) \<and> favorite_rental_id f = n \<longrightarrow>
      (Favorite, k2) \<notin> fst ` set (db (Model_delete w (Rental, IntKey n))))
   \<and> (((Booking, k3), BookingRow g) \<in> set (db w) \<and> booking_rental_id g = n \<longrightarrow>
      (Booking, k3) \<notin> fst ` set (db (Model_delete w (Rental, IntKey n))))
   \<and> (((Car, IntKey cn), CarRow c) \<in> set (db w) \<and> car_brand_id c = b
        \<and> ((Rental, IntKey n), RentalRow r) \<in> set (db w) \<and> rental_car_id r = cn \<longrightarrow>
      (Rental, IntKey n) \<notin> fst ` set (db (Model_delete w (Brand, IntKey b)))
      \<and> (((Review, k1), ReviewRow v) \<in> set (db w) \<and> review_rental_id v = n \<longrightarrow>
           (Review, k1) \<notin> fst ` set (db (Model_delete w (Brand, IntKey b))))
      \<and> (((Favorite, k2), FavoriteRow f) \<in> set (db w) \<and> favorite_rental_id f = n \<longrightarrow>
           (Favorite, k2) \<notin> fst ` set (db (Model_delete w (Brand, IntKey b))))
      \<and> (((Booking, k3), BookingRow g) \<in> set (db w) \<and> booking_rental_id g = n \<longrightarrow>
           (Booking, k3) \<notin> fst ` set (db (Model_delete w (Brand, IntKey b)))))"
proof -
  have direct: "(Rental, IntKey n) \<in> set (collect foreign_keys (db w) [(Rental, IntKey n)] [])"
    by (rule doomed_root)
  have A: "((Review, k1), ReviewRow v) \<in> set (db w) \<and> review_rental_id v = n \<longrightarrow>
      (Review, k1) \<notin> fst ` set (db (Model_delete w (Rental, IntKey n)))"
    using doomed_Review_of_Rental [OF direct] Model_delete_removes by blast
  have B: "((Favorite, k2), FavoriteRow f) \<in> set (db w) \<and> favorite_rental_id f = n \<longrightarrow>
      (Favorite, k2) \<notin> fst ` set (db (Model_delete w (Rental, IntKey n)))"
    using doomed_Favorite_of_Rental [OF direct] Model_delete_removes by blast
  have C: "((Booking, k3), BookingRow g) \<in> set (db w) \<and> booking_rental_id g = n \<longrightarrow>
      (Booking, k3) \<notin> fst ` set (db (Model_delete w (Rental, IntKey n)))"
    using doomed_Booking_of_Rental [OF direct] Model_delete_removes by blast
  have D: "((Car, IntKey cn), CarRow c) \<in> set (db w) \<and> car_brand_id c = b
        \<and> ((Rental, IntKey n), RentalRow r) \<in> set (db w) \<and> rental_car_id r = cn \<longrightarrow>
      (Rental, IntKey n) \<notin> fst ` set (db (Model_delete w (Brand, IntKey b)))
      \<and> (((Review, k1), ReviewRow v) \<in> set (db w) \<and> review_rental_id v = n \<longrightarrow>
           (Review, k1) \<notin> fst ` set (db (Model_delete w (Brand, IntKey b))))
      \<and> (((Favorite, k2), FavoriteRow f) \<in> set (db w) \<and> favorite_rental_id f = n \<longrightarrow>
           (Favorite, k2) \<notin> fst ` set (db (Model_delete w (Brand, IntKey b))))
      \<and> (((Booking, k3), BookingRow g) \<in> set (db w) \<and> booking_rental_id g = n \<longrightarrow>
           (Booking, k3) \<notin> fst ` set (db (Model_delete w (Brand, IntKey b))))"
  proof
    assume h: "((Car, IntKey cn), CarRow c) \<in> set (db w) \<and> car_brand_id c = b
        \<and> ((Rental, IntKey n), RentalRow r) \<in> set (db w) \<and> rental_car_id r = cn"
    then have h1: "((Car, IntKey cn), CarRow c) \<in> set (db w)" and h2: "car_brand_id c = b"
      and h3: "((Rental, IntKey n), RentalRow r) \<in> set (db w)" and h4: "rental_car_id r = cn"
      by simp_all
    have car: "(Car, IntKey cn) \<in> set (collect foreign_keys (db w) [(Brand, IntKey b)] [])"
      by (rule doomed_Car_of_Brand [OF doomed_root h1 h2])
    have rental: "(Rental, IntKey n) \<in> set (collect foreign_keys (db w) [(Brand, IntKey b)] [])"
      by (rule doomed_Rental_of_Car [OF car h3 h4])
    show "(Rental, IntKey n) \<notin> fst ` set (db (Model_delete w (Brand, IntKey b)))
      \<and> (((Review, k1), ReviewRow v) \<in> set (db w) \<and> review_rental_id v = n \<longrightarrow>
           (Review, k1) \<notin> fst ` set (db (Model_delete w (Brand, IntKey b))))
      \<and> (((Favorite, k2), FavoriteRow f) \<in> set (db w) \<and> favorite_rental_id f = n \<longrightarrow>
           (Favorite, k2) \<notin> fst ` set (db (Model_delete w (Brand, IntKey b))))
      \<and> (((Booking, k3), BookingRow g) \<in> set (db w) \<and> booking_rental_id g = n \<longrightarrow>
           (Booking, k3) \<notin> fst ` set (db (Model_delete w (Brand, IntKey b))))"
      using Model_delete_removes [OF rental] doomed_Review_of_Rental [OF rental]
        doomed_Favorite_of_Rental [OF rental] doomed_Booking_of_Rental [OF rental]
        Model_delete_removes
      by blast
  qed
  from A B C D show ?thesis by (intro conjI)
qed

theorem delete_Rental_cascades_witness:
  "(Review, IntKey 1) \<notin> fst ` set (db (Model_delete example_shop (Rental, IntKey 1)))
   \<and> (Favorite, IntKey 7) \<notin> fst ` set (db (Model_delete example_shop (Rental, IntKey 1)))
   \<and> (Booking, IntKey 1) \<notin> fst ` set (db (Model_delete example_shop (Rental, IntKey 1)))
   \<and> (Rental, IntKey 1) \<notin> fst ` set (db (Model_delete example_shop (Brand, IntKey 1)))
   \<and> (Review, IntKey 1) \<notin> fst ` set (db (Model_delete example_shop (Brand, IntKey 1)))
   \<and> (Favorite, IntKey 7) \<notin> fst ` set (db (Model_delete example_shop (Brand, IntKey 1)))
   \<and> (Booking, IntKey 1) \<notin> fst ` set (db (Model_delete example_shop (Brand, IntKey 1)))
   \<and> (Review, IntKey 2) \<in> fst ` set (db (Model_delete example_shop (Rental, IntKey 1)))
   \<and> (Payment, StrKey ''abc'') \<in> fst ` set (db (Model_delete example_shop (Brand, IntKey 1)))"
proof -
  have vals: "car_brand_id (example_car 1 1) = 1"
    "rental_car_id (example_rental\<lparr>rental_id := Some 1, rental_car_id := 1\<rparr>) = 1"
    "review_rental_id (example_review\<lparr>review_id := Some 1, review_rental_id := 1\<rparr>) = 1"
    "favorite_rental_id (example_favorite\<lparr>favorite_rental_id := 1\<rparr>) = 1"
    "booking_rental_id (example_booking\<lparr>booking_id := Some 1, booking_rental_id := 1\<rparr>) = 1"
    by (simp_all add: example_car_def)
  note t = delete_Rental_cascades
    [where w = example_shop and n = 1 and b = 1 and cn = 1 and c = "example_car 1 1"
       and r = "example_rental\<lparr>rental_id := Some 1, rental_car_id := 1\<rparr>"
       and ?k1.0 = "IntKey 1"
       and v = "example_review\<lparr>review_id := Some 1, review_rental_id := 1\<rparr>"
       and ?k2.0 = "IntKey 7" and f = "example_favorite\<lparr>favorite_rental_id := 1\<rparr>"
       and ?k3.0 = "IntKey 1"
       and g = "example_booking\<lparr>booking_id := Some 1, booking_rental_id := 1\<rparr>"]
  from t example_shop_rows vals
  have gone: "(Review, IntKey 1) \<notin> fst ` set (db (Model_delete example_shop (Rental, IntKey 1)))
   \<and> (Favorite, IntKey 7) \<notin> fst ` set (db (Model_delete example_shop (Rental, IntKey 1)))
   \<and> (Booking, IntKey 1) \<notin> fst ` set (db (Model_delete example_shop (Rental, IntKey 1)))
   \<and> (Rental, IntKey 1) \<notin> fst ` set (db (Model_delete example_shop (Brand, IntKey 1)))
   \<and> (Review, IntKey 1) \<notin> fst ` set (db (Model_delete example_shop (Brand, IntKey 1)))
   \<and> (Favorite, IntKey 7) \<notin> fst ` set (db (Model_delete example_shop (Brand, IntKey 1)))
   \<and> (Booking, IntKey 1) \<notin> fst ` set (db (Model_delete example_shop (Brand, IntKey 1)))"
    by blast
  have "(Review, IntKey 2) \<in> set (map fst (db (Model_delete example_shop (Rental, IntKey 1))))"
    unfolding example_delete_Rental by simp
  then have k1: "(Review, IntKey 2) \<in> fst ` set (db (Model_delete example_shop (Rental, IntKey 1)))"
    by simp
  have "(Payment, StrKey ''abc'') \<in> set (map fst (db (Model_delete example_shop (Brand, IntKey 1))))"
    unfolding example_delete_Brand by simp
  then have k2: "(Payment, StrKey ''abc'') \<in> fst ` set (db (Model_delete example_shop (Brand, IntKey 1)))"
    by simp
  from gone k1 k2 show ?thesis by blast
qed

subsection \<open>Migration 0010\<close>


lemma migrate_missing_column:
  "st (''rental'', ''created_at'') = None \<Longrightarrow>
     migrate st = Inl (FieldDoesNotExist ''rental'' ''created_at'')"
  by (simp add: migrate_def operations_def)





end
